theory Spec2Isabelle
  imports Complex_Main "HOL-Library.Sublist"
begin

section \<open>Python values used by the weather scripts\<close>

text \<open>
  The scripts are Python programs that read lines from standard input, call a weather
  HTTP API and a language-model API, and print text. The embedding keeps what the
  scripts compute (string tests, status-code dispatch, exception handlers, the order of
  the calls) and takes what the outside world answers as parameters.

  Strings are lists of 8-bit code points. \<open>str.strip\<close> removes the code points for which
  \<open>str.isspace\<close> holds; \<open>str.upper\<close> and \<open>str.lower\<close> are modelled on the ASCII
  letters and leave every other code point unchanged.
\<close>

definition is_space :: "char \<Rightarrow> bool" where
  "is_space c = (let n = (of_char c :: nat) in
     (9 \<le> n \<and> n \<le> 13) \<or> (28 \<le> n \<and> n \<le> 32) \<or> n = 133 \<or> n = 160)"

definition strip :: "string \<Rightarrow> string" where
  "strip s = rev (dropWhile is_space (rev (dropWhile is_space s)))"

definition lower_letters :: string where
  "lower_letters = ''abcdefghijklmnopqrstuvwxyz''"

definition upper_letters :: string where
  "upper_letters = ''ABCDEFGHIJKLMNOPQRSTUVWXYZ''"

definition upper_char :: "char \<Rightarrow> char" where
  "upper_char c = (case map_of (zip lower_letters upper_letters) c of
     Some u \<Rightarrow> u | None \<Rightarrow> c)"

definition lower_char :: "char \<Rightarrow> char" where
  "lower_char c = (case map_of (zip upper_letters lower_letters) c of
     Some l \<Rightarrow> l | None \<Rightarrow> c)"

definition upper :: "string \<Rightarrow> string" where
  "upper s = map upper_char s"

definition lower :: "string \<Rightarrow> string" where
  "lower s = map lower_char s"

text \<open>\<open>str(n)\<close> for a Python int: decimal digits, with a minus sign when negative.\<close>

fun str_nat :: "nat \<Rightarrow> string" where
  "str_nat n = (if n < 10 then [''0123456789'' ! n]
     else str_nat (n div 10) @ [''0123456789'' ! (n mod 10)])"

declare str_nat.simps [simp del]

definition str_int :: "int \<Rightarrow> string" where
  "str_int i = (if i < 0 then CHR ''-'' # str_nat (nat (- i)) else str_nat (nat i))"

text \<open>
  A Python float is a finite value, an infinity or NaN. Comparisons with NaN are false.
  The decimal rendering of a float (\<open>repr\<close>) and the parsing done by \<open>float(s)\<close> are
  parameters of the model (fields of \<open>world\<close> below).
\<close>

datatype pyfloat = Finite real | PosInf | NegInf | NaN

fun float_lt :: "pyfloat \<Rightarrow> int \<Rightarrow> bool" where
  "float_lt (Finite x) c = (x < of_int c)"
| "float_lt NegInf c = True"
| "float_lt PosInf c = False"
| "float_lt NaN c = False"

fun float_gt :: "pyfloat \<Rightarrow> int \<Rightarrow> bool" where
  "float_gt (Finite x) c = (of_int c < x)"
| "float_gt PosInf c = True"
| "float_gt NegInf c = False"
| "float_gt NaN c = False"

text \<open>
  A JSON number arrives as a Python int or a Python float; \<open>num_gt\<close> and \<open>num_le\<close>
  are Python's \<open>>\<close> and \<open><=\<close> between such a number and an int.
\<close>

datatype pynum = PyInt int | PyFloat pyfloat

fun num_gt :: "pynum \<Rightarrow> int \<Rightarrow> bool" where
  "num_gt (PyInt i) c = (c < i)"
| "num_gt (PyFloat x) c = float_gt x c"

fun num_le :: "pynum \<Rightarrow> int \<Rightarrow> bool" where
  "num_le (PyInt i) c = (i \<le> c)"
| "num_le (PyFloat (Finite x)) c = (x \<le> of_int c)"
| "num_le (PyFloat NegInf) c = True"
| "num_le (PyFloat PosInf) c = False"
| "num_le (PyFloat NaN) c = False"

subsection \<open>Exceptions\<close>

text \<open>
  An exception is its class and its message (\<open>str(e)\<close>). Every class below except
  \<open>KeyboardInterrupt\<close> derives from \<open>Exception\<close>, so \<open>except Exception\<close> catches it.
\<close>

datatype exc_class = ValueError | RequestException | EOFError | KeyboardInterrupt | OtherException

datatype pyexc = Exc exc_class string

fun exc_msg :: "pyexc \<Rightarrow> string" where
  "exc_msg (Exc c m) = m"

fun is_Exception :: "pyexc \<Rightarrow> bool" where
  "is_Exception (Exc c m) = (c \<noteq> KeyboardInterrupt)"

fun is_ValueError :: "pyexc \<Rightarrow> bool" where
  "is_ValueError (Exc c m) = (c = ValueError)"


fun is_KeyboardInterrupt :: "pyexc \<Rightarrow> bool" where
  "is_KeyboardInterrupt (Exc c m) = (c = KeyboardInterrupt)"

subsection \<open>The weather provider's response\<close>

record location_info =
  name :: string
  region :: string
  country :: string
  lat :: pynum
  lon :: pynum
  localtime :: string

record current_info =
  temp_c :: pynum
  feelslike_c :: pynum
  humidity :: pynum
  cloud :: pynum
  wind_kph :: pynum
  uv :: pynum
  condition_text :: string

record weather_data =
  location :: location_info
  current :: current_info

text \<open>
  \<open>response.json()\<close> either raises or returns the decoded body. \<open>None\<close> stands for a
  decoded body that Python treats as false (\<open>null\<close>, an empty object); \<open>Some d\<close> is a
  body of the provider's documented shape, which is a non-empty dict and so is true.
\<close>

record http_response =
  status_code :: int
  body_text :: string
  body_json :: "pyexc + weather_data option"

datatype locator = ByName string | ByCoords pyfloat pyfloat

subsection \<open>The language-model backend\<close>

text \<open>
  The three stages send different instructions; the composer's message carries the
  weather context built from seven fields of the record.
\<close>

record weather_context =
  ctx_location :: string
  ctx_country :: string
  ctx_temperature :: pynum
  ctx_humidity :: pynum
  ctx_cloud :: pynum
  ctx_wind :: pynum
  ctx_condition :: string

datatype llm_request =
    ClassifyRequest string
  | ExtractRequest string
  | ComposeRequest string weather_context

datatype binding = Claude | Gemini | OpenAI | Groq

fun api_name :: "binding \<Rightarrow> string" where
  "api_name Claude = ''Claude''"
| "api_name Gemini = ''Gemini''"
| "api_name OpenAI = ''OpenAI''"
| "api_name Groq = ''Groq''"

text \<open>The OpenAI and Groq scripts apply \<open>.upper()\<close> before comparing a reply with a token.\<close>

fun uppercases_reply :: "binding \<Rightarrow> bool" where
  "uppercases_reply Claude = False"
| "uppercases_reply Gemini = False"
| "uppercases_reply OpenAI = True"
| "uppercases_reply Groq = True"

text \<open>The OpenAI and Groq scripts also print the body of a failed weather request.\<close>

fun prints_response_text :: "binding \<Rightarrow> bool" where
  "prints_response_text Claude = False"
| "prints_response_text Gemini = False"
| "prints_response_text OpenAI = True"
| "prints_response_text Groq = True"

subsection \<open>The world and the trace of effects\<close>

text \<open>
  \<open>llm\<close> answers a language-model call with the text of the first completion, or with
  the exception that the call (or reading the text out of its result) raises.
  \<open>http_get\<close> answers the weather request for a locator. \<open>float_repr\<close> is Python's
  rendering of a float, \<open>float_parse\<close> is \<open>float(s)\<close> with \<open>None\<close> for its ValueError,
  and \<open>api_key\<close> is the value of \<open>WEATHER_API_KEY\<close> read by \<open>weather.py\<close>.
\<close>

record world =
  llm :: "llm_request \<Rightarrow> pyexc + string"
  http_get :: "locator \<Rightarrow> pyexc + http_response"
  float_repr :: "pyfloat \<Rightarrow> string"
  float_parse :: "string \<Rightarrow> pyfloat option"
  api_key :: "string option"

datatype event =
    Print string
  | Prompt string
  | LlmCall llm_request
  | HttpGet locator

text \<open>
  A computation returns a value or raises, and leaves a trace of the effects it had.
\<close>

type_synonym 'a io = "(pyexc + 'a) \<times> event list"

definition return :: "'a \<Rightarrow> 'a io" where
  "return x = (Inr x, [])"

definition raise :: "pyexc \<Rightarrow> 'a io" where
  "raise e = (Inl e, [])"

definition bind_io :: "'a io \<Rightarrow> ('a \<Rightarrow> 'b io) \<Rightarrow> 'b io" where
  "bind_io m f = (case m of
      (Inl e, t) \<Rightarrow> (Inl e, t)
    | (Inr x, t) \<Rightarrow> (case f x of (r, t') \<Rightarrow> (r, t @ t')))"

text \<open>\<open>try: m except Exception as e: h e\<close>\<close>

definition try_except_Exception :: "'a io \<Rightarrow> (pyexc \<Rightarrow> 'a io) \<Rightarrow> 'a io" where
  "try_except_Exception m h = (case m of
      (Inl e, t) \<Rightarrow>
        (if is_Exception e then (case h e of (r, t') \<Rightarrow> (r, t @ t')) else (Inl e, t))
    | (Inr x, t) \<Rightarrow> (Inr x, t))"

definition print :: "string \<Rightarrow> unit io" where
  "print s = (Inr (), [Print s])"

definition llm_call :: "world \<Rightarrow> llm_request \<Rightarrow> string io" where
  "llm_call w req = (llm w req, [LlmCall req])"

definition requests_get :: "world \<Rightarrow> locator \<Rightarrow> http_response io" where
  "requests_get w q = (http_get w q, [HttpGet q])"

definition response_json :: "http_response \<Rightarrow> weather_data option io" where
  "response_json response = (body_json response, [])"

fun py_str :: "world \<Rightarrow> pynum \<Rightarrow> string" where
  "py_str w (PyInt i) = str_int i"
| "py_str w (PyFloat x) = float_repr w x"

section \<open>The chatbot scripts\<close>

text \<open>
  \<open>weather_bot.py\<close> (Claude), \<open>weather_bot_gemini.py\<close>, \<open>weather_bot_openai.py\<close> and
  \<open>ex03/weather_bot_groq.py\<close> define the same five functions; the binding says which
  script is meant.
\<close>

definition get_weather_by_location :: "binding \<Rightarrow> world \<Rightarrow> string \<Rightarrow> weather_data option io" where
  "get_weather_by_location b w location_name =
     try_except_Exception
       (bind_io (requests_get w (ByName location_name)) (\<lambda>response.
          if status_code response = 200 then response_json response
          else if status_code response = 400 then return None
          else bind_io (print (''Error: API request failed with status code ''
                               @ str_int (status_code response))) (\<lambda>_.
               if prints_response_text b
               then bind_io (print (''Response: '' @ body_text response)) (\<lambda>_. return None)
               else return None)))
       (\<lambda>e. bind_io (print (''Error connecting to weather API: '' @ exc_msg e)) (\<lambda>_.
            return None))"

definition extract_location_from_query :: "binding \<Rightarrow> world \<Rightarrow> string \<Rightarrow> string option io" where
  "extract_location_from_query b w query =
     try_except_Exception
       (bind_io (llm_call w (ExtractRequest query)) (\<lambda>text_reply.
          let location = strip text_reply in
          if (if uppercases_reply b then upper location else location) = ''UNKNOWN''
          then return None
          else return (Some location)))
       (\<lambda>e. bind_io (print (''Error connecting to '' @ api_name b @ '' API: '' @ exc_msg e))
            (\<lambda>_. return None))"

definition is_weather_query :: "binding \<Rightarrow> world \<Rightarrow> string \<Rightarrow> bool io" where
  "is_weather_query b w query =
     try_except_Exception
       (bind_io (llm_call w (ClassifyRequest query)) (\<lambda>text_reply.
          let is_weather = strip text_reply in
          return ((if uppercases_reply b then upper is_weather else is_weather) = ''YES'')))
       (\<lambda>e. bind_io (print (''Error connecting to '' @ api_name b @ '' API: '' @ exc_msg e))
            (\<lambda>_. return True))"

definition context_of :: "weather_data \<Rightarrow> weather_context" where
  "context_of weather_data =
     \<lparr> ctx_location = name (location weather_data),
       ctx_country = country (location weather_data),
       ctx_temperature = temp_c (current weather_data),
       ctx_humidity = humidity (current weather_data),
       ctx_cloud = cloud (current weather_data),
       ctx_wind = wind_kph (current weather_data),
       ctx_condition = condition_text (current weather_data) \<rparr>"

definition generate_weather_response :: "binding \<Rightarrow> world \<Rightarrow> string \<Rightarrow> weather_data \<Rightarrow> string io" where
  "generate_weather_response b w query weather_data =
     (let c = context_of weather_data in
      try_except_Exception
        (bind_io (llm_call w (ComposeRequest query c)) (\<lambda>text_reply.
           return (strip text_reply)))
        (\<lambda>e. bind_io (print (''Error connecting to '' @ api_name b @ '' API: '' @ exc_msg e))
           (\<lambda>_. return
             (''The current weather in '' @ ctx_location c
              @ '' is a temperature of '' @ py_str w (ctx_temperature c)
              @ '' degrees (C), a humidity of '' @ py_str w (ctx_humidity c) @ ''%, ''
              @ (if num_gt (ctx_cloud c) 50 then ''there are a lot of clouds''
                 else ''there are few clouds'')
              @ '' in the sky and a wind of '' @ py_str w (ctx_wind c) @ ''km/h.''))))"

definition redirect_message :: string where
  "redirect_message =
     ''I'm a weather assistant. Please ask me about the weather in a specific location.''"

definition clarification_message :: string where
  "clarification_message =
     ''I couldn't determine which location you're asking about. Could you please specify a city or place?''"

definition not_found_message :: "string \<Rightarrow> string" where
  "not_found_message loc =
     ''I couldn't find weather information for '' @ [CHR 0x27] @ loc @ [CHR 0x27]
     @ ''. Please check the spelling or try a different location.''"

text \<open>\<open>not location\<close> holds for \<open>None\<close> and for the empty string.\<close>

definition handle_user_query :: "binding \<Rightarrow> world \<Rightarrow> string \<Rightarrow> string io" where
  "handle_user_query b w query =
     bind_io (is_weather_query b w query) (\<lambda>is_weather.
       if \<not> is_weather then return redirect_message
       else bind_io (extract_location_from_query b w query) (\<lambda>location.
         case location of
           None \<Rightarrow> return clarification_message
         | Some loc \<Rightarrow>
             if loc = [] then return clarification_message
             else bind_io (get_weather_by_location b w loc) (\<lambda>weather_data.
               case weather_data of
                 None \<Rightarrow> return (not_found_message loc)
               | Some d \<Rightarrow> generate_weather_response b w query d)))"

subsection \<open>The conversation loop\<close>

text \<open>
  Each call of \<open>input\<close> consumes one event of standard input: a line, an interrupt
  (\<open>KeyboardInterrupt\<close>) or end of file (\<open>EOFError\<close>).
\<close>

datatype stdin_event = Line string | Interrupt | Eof

definition py_input :: "string \<Rightarrow> stdin_event \<Rightarrow> string io" where
  "py_input p ev =
     ((case ev of
         Line s \<Rightarrow> Inr s
       | Interrupt \<Rightarrow> Inl (Exc KeyboardInterrupt [])
       | Eof \<Rightarrow> Inl (Exc EOFError ''EOF when reading a line'')),
      [Prompt p])"

datatype loop_ctl = Break | Continue

definition exit_words :: "string list" where
  "exit_words = [''exit'', ''quit'', ''bye'', ''goodbye'']"

text \<open>The body of the \<open>try\<close> block inside \<open>while True\<close>.\<close>

definition loop_try :: "binding \<Rightarrow> world \<Rightarrow> stdin_event \<Rightarrow> loop_ctl io" where
  "loop_try b w ev =
     bind_io (py_input ''Ask?: '' ev) (\<lambda>user_input.
       if lower user_input \<in> set exit_words
       then bind_io (print ''Goodbye! Have a great day!'') (\<lambda>_. return Break)
       else if strip user_input = []
       then bind_io (print ''Please ask a question about the weather.'') (\<lambda>_. return Continue)
       else bind_io (handle_user_query b w user_input) (\<lambda>response.
              bind_io (print response) (\<lambda>_.
              bind_io (print []) (\<lambda>_. return Continue))))"

text \<open>
  One iteration with its handlers: \<open>except KeyboardInterrupt\<close> leaves the loop,
  \<open>except Exception\<close> reports and goes on. Every exception of the model is one or the other.
\<close>

definition loop_iteration :: "binding \<Rightarrow> world \<Rightarrow> stdin_event \<Rightarrow> loop_ctl \<times> event list" where
  "loop_iteration b w ev = (case loop_try b w ev of
      (Inr c, t) \<Rightarrow> (c, t)
    | (Inl e, t) \<Rightarrow>
        (if is_KeyboardInterrupt e
         then (Break, t @ [Print (CHR 0x0A # ''Goodbye! Have a great day!'')])
         else (Continue, t @ [Print (''An error occurred: '' @ exc_msg e),
                              Print ''Please try again with a different question.''])))"

datatype run_end = Finished | AwaitingInput

fun conversation_loop :: "binding \<Rightarrow> world \<Rightarrow> stdin_event list \<Rightarrow> run_end \<times> event list" where
  "conversation_loop b w [] = (AwaitingInput, [Prompt ''Ask?: ''])"
| "conversation_loop b w (ev # rest) = (case loop_iteration b w ev of
      (Break, t) \<Rightarrow> (Finished, t)
    | (Continue, t) \<Rightarrow> (case conversation_loop b w rest of (r, t') \<Rightarrow> (r, t @ t')))"

fun banner :: "binding \<Rightarrow> string list" where
  "banner Claude = [''Weather Chatbot'', ''=============='']"
| "banner Gemini = [''Weather Chatbot'', ''=============='']"
| "banner OpenAI = [''Weather Chatbot (OpenAI Version)'', ''================================'']"
| "banner Groq = [''Weather Chatbot (Groq Version)'', ''=============================='']"

definition main_bot :: "binding \<Rightarrow> world \<Rightarrow> stdin_event list \<Rightarrow> run_end \<times> event list" where
  "main_bot b w stdin = (case conversation_loop b w stdin of (r, t) \<Rightarrow>
     (r, map Print (banner b
           @ [''Ask me about the weather in any location!'',
              ''Type 'exit' or 'quit' to end the conversation.'',
              []]) @ t))"

section \<open>The coordinate script \<open>weather.py\<close>\<close>

text \<open>
  The range checks raise \<open>ValueError\<close> inside the \<open>try\<close> block whose handler is
  \<open>except ValueError\<close>, so the handler sees them as well as the error of \<open>float\<close>.
\<close>

definition validate_coordinates :: "world \<Rightarrow> string \<Rightarrow> string \<Rightarrow> pyexc + pyfloat" where
  "validate_coordinates w val coord_type =
     (case (case float_parse w val of
              None \<Rightarrow> Inl (Exc ValueError (''could not convert string to float: '' @ [CHR 0x27] @ val @ [CHR 0x27]))
            | Some coordinate \<Rightarrow>
                if coord_type = ''latitude''
                   \<and> (float_lt coordinate (- 90) \<or> float_gt coordinate 90)
                then Inl (Exc ValueError ''Latitude must be between -90 and 90 degrees'')
                else if coord_type = ''longitude''
                   \<and> (float_lt coordinate (- 180) \<or> float_gt coordinate 180)
                then Inl (Exc ValueError ''Longitude must be between -180 and 180 degrees'')
                else Inr coordinate)
      of
        Inl e \<Rightarrow>
          if is_ValueError e
          then Inl (Exc ValueError (''Invalid '' @ coord_type @ '' format. Please enter a number.''))
          else Inl e
      | Inr coordinate \<Rightarrow> Inr coordinate)"



text \<open>
  The loop that asks for one coordinate until \<open>validate_coordinates\<close> accepts a line.
  It ends with the coordinate, with the exception that leaves the loop, or waiting for
  input when the scripted standard input is used up.
\<close>

datatype 'a reading = Awaiting | Got 'a "stdin_event list"





section \<open>Sample worlds\<close>

text \<open>
  Concrete worlds and records on which the general theorems are instantiated: every
  backend gives one fixed answer, and \<open>float\<close> knows four numerals.
\<close>

definition scripted_world ::
  "(pyexc + string) \<Rightarrow> (pyexc + string) \<Rightarrow> (pyexc + http_response) \<Rightarrow> (pyexc + string) \<Rightarrow> world" where
  "scripted_world classify extract weather compose =
     \<lparr> llm = (\<lambda>req. case req of
                ClassifyRequest q \<Rightarrow> classify
              | ExtractRequest q \<Rightarrow> extract
              | ComposeRequest q c \<Rightarrow> compose),
       http_get = (\<lambda>q. weather),
       float_repr = (\<lambda>x. ''0.0''),
       float_parse = map_of [(''91'', Finite 91), (''45'', Finite 45),
                             (''200'', Finite 200), (''-122'', Finite (- 122))],
       api_key = Some ''key'' \<rparr>"

definition timeout :: pyexc where
  "timeout = Exc RequestException ''Read timed out.''"

definition server_error :: http_response where
  "server_error = \<lparr> status_code = 503, body_text = ''Service Unavailable'',
                     body_json = Inl (Exc ValueError ''Expecting value'') \<rparr>"

definition bad_request :: http_response where
  "bad_request = \<lparr> status_code = 400, body_text = ''No matching location found.'',
                    body_json = Inl (Exc ValueError ''Expecting value'') \<rparr>"

definition sample_weather :: weather_data where
  "sample_weather =
     \<lparr> location = \<lparr> name = ''Paris'', region = ''Ile-de-France'', country = ''France'',
                      lat = PyFloat (Finite 48), lon = PyFloat (Finite 2),
                      localtime = ''2025-02-26 12:00'' \<rparr>,
       current = \<lparr> temp_c = PyInt 30, feelslike_c = PyInt 31, humidity = PyInt 40,
                     cloud = PyInt 80, wind_kph = PyInt 15, uv = PyInt 5,
                     condition_text = ''Partly cloudy'' \<rparr> \<rparr>"

section \<open>Properties\<close>

lemmas io_defs = return_def raise_def bind_io_def try_except_Exception_def print_def
  llm_call_def requests_get_def response_json_def

lemmas case_defs = upper_def lower_def upper_char_def lower_char_def
  lower_letters_def upper_letters_def


subsection \<open>The orchestrator\<close>

text \<open>
  C1. When the classifier's verdict for a query is false, \<open>handle_user_query\<close> returns
  exactly the redirect message, whatever the other backends would answer, and its whole
  trace is the one classification call: the location extractor and the weather fetcher
  are not invoked.
\<close>

theorem handle_redirect:
  assumes "fst (is_weather_query b w q) = Inr False"
  shows "handle_user_query b w q = (Inr redirect_message, [LlmCall (ClassifyRequest q)])"
  using assms
  by (cases "llm w (ClassifyRequest q)")
     (auto simp: handle_user_query_def is_weather_query_def io_defs Let_def split: if_splits)

theorem handle_redirect_witness:
  "fst (is_weather_query Groq
          (scripted_world (Inr ''NO'') (Inr ''Paris'') (Inr server_error) (Inr ''Sunny.''))
          ''Tell me a joke'') = Inr False
   \<and> handle_user_query Groq
          (scripted_world (Inr ''NO'') (Inr ''Paris'') (Inr server_error) (Inr ''Sunny.''))
          ''Tell me a joke''
       = (Inr ''I'm a weather assistant. Please ask me about the weather in a specific location.'',
          [LlmCall (ClassifyRequest ''Tell me a joke'')])"
proof -
  let ?w = "scripted_world (Inr ''NO'') (Inr ''Paris'') (Inr server_error) (Inr ''Sunny.'')"
  have h: "fst (is_weather_query Groq ?w ''Tell me a joke'') = Inr False"
    by (simp add: is_weather_query_def io_defs scripted_world_def strip_def is_space_def case_defs)
  show ?thesis
    using h handle_redirect [OF h] by (simp add: redirect_message_def)
qed

subsection \<open>The classifier\<close>




text \<open>
  C3, as the code has it. For a reply that is the token YES in any letter case, possibly
  surrounded by whitespace, the OpenAI and Groq bindings return true; the Claude and
  Gemini bindings compare the stripped reply with \<open>YES\<close> as it is and return true only
  for the upper-case token.
\<close>

theorem yes_case_by_binding:
  assumes "llm w (ClassifyRequest q) = Inr r"
    and "strip r \<in> set [''YES'', ''YEs'', ''YeS'', ''Yes'', ''yES'', ''yEs'', ''yeS'', ''yes'']"
  shows "fst (is_weather_query b w q) = Inr (uppercases_reply b \<or> strip r = ''YES'')"
  using assms
  by (auto simp: is_weather_query_def io_defs Let_def upper_def upper_char_def lower_letters_def upper_letters_def)

theorem yes_case_by_binding_witness:
  "fst (is_weather_query OpenAI
          (scripted_world (Inr '' yes '') (Inr ''Paris'') (Inr server_error) (Inr ''Sunny.''))
          ''Will it rain in Paris?'') = Inr True
   \<and> fst (is_weather_query Gemini
          (scripted_world (Inr '' yes '') (Inr ''Paris'') (Inr server_error) (Inr ''Sunny.''))
          ''Will it rain in Paris?'') = Inr False
   \<and> fst (is_weather_query Gemini
          (scripted_world (Inr '' YES '') (Inr ''Paris'') (Inr server_error) (Inr ''Sunny.''))
          ''Will it rain in Paris?'') = Inr True"
proof -
  let ?q = "''Will it rain in Paris?''"
  let ?w1 = "scripted_world (Inr '' yes '') (Inr ''Paris'') (Inr server_error) (Inr ''Sunny.'')"
  let ?w2 = "scripted_world (Inr '' YES '') (Inr ''Paris'') (Inr server_error) (Inr ''Sunny.'')"
  have s1: "strip '' yes '' = ''yes''" and s2: "strip '' YES '' = ''YES''"
    by (simp_all add: strip_def is_space_def)
  have a: "llm ?w1 (ClassifyRequest ?q) = Inr '' yes ''"
    and b: "llm ?w2 (ClassifyRequest ?q) = Inr '' YES ''"
    by (simp_all add: scripted_world_def)
  show ?thesis
    using yes_case_by_binding [OF a, of OpenAI] yes_case_by_binding [OF a, of Gemini]
      yes_case_by_binding [OF b, of Gemini] s1 s2
    by simp
qed

text \<open>
  The claim as stated fails in the Claude binding (and in the Gemini one): the reply
  \<open>yes\<close> gives the verdict false.
\<close>

theorem lowercase_yes_counterexample:
  "fst (is_weather_query Claude
          (scripted_world (Inr ''yes'') (Inr ''Paris'') (Inr server_error) (Inr ''Sunny.''))
          ''Will it rain in Paris?'') = Inr False
   \<and> fst (is_weather_query Gemini
          (scripted_world (Inr ''yes'') (Inr ''Paris'') (Inr server_error) (Inr ''Sunny.''))
          ''Will it rain in Paris?'') = Inr False"
  by (simp add: is_weather_query_def io_defs scripted_world_def strip_def is_space_def)

subsection \<open>The location extractor\<close>

text \<open>
  C8. The four bindings of \<open>extract_location_from_query\<close> differ on the sentinel: Claude
  and Gemini return the absence value exactly when the stripped reply is \<open>UNKNOWN\<close>,
  OpenAI and Groq when its upper-case form is. For the reply \<open>unknown\<close> the first two
  return it as a location and the other two return absence.
\<close>

theorem sentinel_case_differs:
  assumes "llm w (ExtractRequest q) = Inr r"
  shows "(fst (extract_location_from_query Claude w q) = Inr None) = (strip r = ''UNKNOWN'')
     \<and> (fst (extract_location_from_query Gemini w q) = Inr None) = (strip r = ''UNKNOWN'')
     \<and> (fst (extract_location_from_query OpenAI w q) = Inr None) = (upper (strip r) = ''UNKNOWN'')
     \<and> (fst (extract_location_from_query Groq w q) = Inr None) = (upper (strip r) = ''UNKNOWN'')
     \<and> (r = ''unknown'' \<longrightarrow>
          fst (extract_location_from_query Claude w q) = Inr (Some ''unknown'')
        \<and> fst (extract_location_from_query Gemini w q) = Inr (Some ''unknown'')
        \<and> fst (extract_location_from_query OpenAI w q) = Inr None
        \<and> fst (extract_location_from_query Groq w q) = Inr None)"
  using assms
  by (auto simp: extract_location_from_query_def io_defs Let_def strip_def is_space_def
       upper_def upper_char_def lower_letters_def upper_letters_def)

theorem sentinel_case_differs_witness:
  "fst (extract_location_from_query Claude
          (scripted_world (Inr ''YES'') (Inr ''unknown'') (Inr server_error) (Inr ''Sunny.''))
          ''Will it be sunny tomorrow?'') = Inr (Some ''unknown'')
   \<and> fst (extract_location_from_query Gemini
          (scripted_world (Inr ''YES'') (Inr ''unknown'') (Inr server_error) (Inr ''Sunny.''))
          ''Will it be sunny tomorrow?'') = Inr (Some ''unknown'')
   \<and> fst (extract_location_from_query OpenAI
          (scripted_world (Inr ''YES'') (Inr ''unknown'') (Inr server_error) (Inr ''Sunny.''))
          ''Will it be sunny tomorrow?'') = Inr None
   \<and> fst (extract_location_from_query Groq
          (scripted_world (Inr ''YES'') (Inr ''unknown'') (Inr server_error) (Inr ''Sunny.''))
          ''Will it be sunny tomorrow?'') = Inr None"
proof -
  let ?w = "scripted_world (Inr ''YES'') (Inr ''unknown'') (Inr server_error) (Inr ''Sunny.'')"
  have a: "llm ?w (ExtractRequest ''Will it be sunny tomorrow?'') = Inr ''unknown''"
    by (simp add: scripted_world_def)
  show ?thesis
    using sentinel_case_differs [OF a] by simp
qed

subsection \<open>Coordinate validation in \<open>weather.py\<close>\<close>

lemma validate_out_of_range:
  assumes "float_parse w s = Some x"
    and "(ct = ''latitude'' \<and> (float_lt x (- 90) \<or> float_gt x 90))
       \<or> (ct = ''longitude'' \<and> (float_lt x (- 180) \<or> float_gt x 180))"
  shows "validate_coordinates w s ct
         = Inl (Exc ValueError (''Invalid '' @ ct @ '' format. Please enter a number.''))"
  using assms by (auto simp: validate_coordinates_def)


text \<open>
  C10. When \<open>float\<close> accepts the input and the value is out of range, the error that
  \<open>validate_coordinates\<close> raises carries the generic format message, not the message
  about the range: the handler of the enclosing \<open>try\<close> replaces it.
\<close>

theorem range_error_replaced:
  assumes "float_parse w s = Some x"
  shows "(float_lt x (- 90) \<or> float_gt x 90 \<longrightarrow>
            validate_coordinates w s ''latitude''
              = Inl (Exc ValueError ''Invalid latitude format. Please enter a number.''))
       \<and> (float_lt x (- 180) \<or> float_gt x 180 \<longrightarrow>
            validate_coordinates w s ''longitude''
              = Inl (Exc ValueError ''Invalid longitude format. Please enter a number.''))"
  using validate_out_of_range [OF assms, of "''latitude''"]
        validate_out_of_range [OF assms, of "''longitude''"]
  by simp

theorem range_error_replaced_witness:
  "validate_coordinates
       (scripted_world (Inr ''YES'') (Inr ''Paris'') (Inr server_error) (Inr ''Sunny.''))
       ''91'' ''latitude''
     = Inl (Exc ValueError ''Invalid latitude format. Please enter a number.'')
   \<and> validate_coordinates
       (scripted_world (Inr ''YES'') (Inr ''Paris'') (Inr server_error) (Inr ''Sunny.''))
       ''200'' ''longitude''
     = Inl (Exc ValueError ''Invalid longitude format. Please enter a number.'')"
proof -
  let ?w = "scripted_world (Inr ''YES'') (Inr ''Paris'') (Inr server_error) (Inr ''Sunny.'')"
  have a: "float_parse ?w ''91'' = Some (Finite 91)"
    and b: "float_parse ?w ''200'' = Some (Finite 200)"
    by (simp_all add: scripted_world_def)
  show ?thesis
    using range_error_replaced [OF a] range_error_replaced [OF b] by simp
qed











subsection \<open>The weather fetcher of the chatbots\<close>

text \<open>
  C5. \<open>get_weather_by_location\<close> returns the absence value for status 400 without
  printing; for any other status than 200 and 400 it prints the status and returns
  absence; when the request raises an exception derived from \<open>Exception\<close> (a timeout, a
  connection error), or the body of a 200 response cannot be decoded, it prints the
  error and returns absence. In none of these cases does it raise. When the classifier
  says yes and the extractor gives a non-empty location, absence from the fetcher makes
  \<open>handle_user_query\<close> return the not-found message that names the location.
\<close>

theorem fetch_failure_is_absence:
  "(http_get w (ByName loc) = Inr resp \<and> status_code resp = 400
      \<longrightarrow> get_weather_by_location b w loc = (Inr None, [HttpGet (ByName loc)]))
   \<and> (http_get w (ByName loc) = Inr resp \<and> status_code resp \<noteq> 200 \<and> status_code resp \<noteq> 400
      \<longrightarrow> fst (get_weather_by_location b w loc) = Inr None
        \<and> Print (''Error: API request failed with status code '' @ str_int (status_code resp))
             \<in> set (snd (get_weather_by_location b w loc)))
   \<and> (http_get w (ByName loc) = Inl e \<and> is_Exception e
      \<longrightarrow> get_weather_by_location b w loc
          = (Inr None, [HttpGet (ByName loc),
                        Print (''Error connecting to weather API: '' @ exc_msg e)]))
   \<and> (http_get w (ByName loc) = Inr resp \<and> status_code resp = 200
        \<and> body_json resp = Inl e \<and> is_Exception e
      \<longrightarrow> get_weather_by_location b w loc
          = (Inr None, [HttpGet (ByName loc),
                        Print (''Error connecting to weather API: '' @ exc_msg e)]))
   \<and> (fst (is_weather_query b w q) = Inr True
        \<and> fst (extract_location_from_query b w q) = Inr (Some loc) \<and> loc \<noteq> []
        \<and> fst (get_weather_by_location b w loc) = Inr None
      \<longrightarrow> fst (handle_user_query b w q) = Inr (not_found_message loc))"
proof (intro conjI impI)
  assume "http_get w (ByName loc) = Inr resp \<and> status_code resp = 400"
  then show "get_weather_by_location b w loc = (Inr None, [HttpGet (ByName loc)])"
    by (simp add: get_weather_by_location_def io_defs)
next
  assume h: "http_get w (ByName loc) = Inr resp \<and> status_code resp \<noteq> 200 \<and> status_code resp \<noteq> 400"
  then show "fst (get_weather_by_location b w loc) = Inr None"
    by (simp add: get_weather_by_location_def io_defs)
  from h show "Print (''Error: API request failed with status code '' @ str_int (status_code resp))
             \<in> set (snd (get_weather_by_location b w loc))"
    by (simp add: get_weather_by_location_def io_defs)
next
  assume "http_get w (ByName loc) = Inl e \<and> is_Exception e"
  then show "get_weather_by_location b w loc
          = (Inr None, [HttpGet (ByName loc),
                        Print (''Error connecting to weather API: '' @ exc_msg e)])"
    by (simp add: get_weather_by_location_def io_defs)
next
  assume "http_get w (ByName loc) = Inr resp \<and> status_code resp = 200
        \<and> body_json resp = Inl e \<and> is_Exception e"
  then show "get_weather_by_location b w loc
          = (Inr None, [HttpGet (ByName loc),
                        Print (''Error connecting to weather API: '' @ exc_msg e)])"
    by (simp add: get_weather_by_location_def io_defs)
next
  assume h: "fst (is_weather_query b w q) = Inr True
        \<and> fst (extract_location_from_query b w q) = Inr (Some loc) \<and> loc \<noteq> []
        \<and> fst (get_weather_by_location b w loc) = Inr None"
  obtain t1 where a: "is_weather_query b w q = (Inr True, t1)"
    using h by (cases "is_weather_query b w q") simp
  obtain t2 where b: "extract_location_from_query b w q = (Inr (Some loc), t2)"
    using h by (cases "extract_location_from_query b w q") simp
  obtain t3 where c: "get_weather_by_location b w loc = (Inr None, t3)"
    using h by (cases "get_weather_by_location b w loc") simp
  from h a b c show "fst (handle_user_query b w q) = Inr (not_found_message loc)"
    by (simp add: handle_user_query_def bind_io_def return_def)
qed

theorem fetch_failure_is_absence_witness:
  "get_weather_by_location Claude
      (scripted_world (Inr ''YES'') (Inr ''Zzqxplorp'') (Inr bad_request) (Inr ''Sunny.''))
      ''Zzqxplorp'' = (Inr None, [HttpGet (ByName ''Zzqxplorp'')])
   \<and> fst (get_weather_by_location Claude
      (scripted_world (Inr ''YES'') (Inr ''Zzqxplorp'') (Inr server_error) (Inr ''Sunny.''))
      ''Zzqxplorp'') = Inr None
   \<and> Print ''Error: API request failed with status code 503''
       \<in> set (snd (get_weather_by_location Claude
         (scripted_world (Inr ''YES'') (Inr ''Zzqxplorp'') (Inr server_error) (Inr ''Sunny.''))
         ''Zzqxplorp''))
   \<and> get_weather_by_location Claude
      (scripted_world (Inr ''YES'') (Inr ''Zzqxplorp'') (Inl timeout) (Inr ''Sunny.''))
      ''Zzqxplorp''
       = (Inr None, [HttpGet (ByName ''Zzqxplorp''),
                     Print ''Error connecting to weather API: Read timed out.''])
   \<and> get_weather_by_location Claude
      (scripted_world (Inr ''YES'') (Inr ''Zzqxplorp'')
         (Inr \<lparr> status_code = 200, body_text = ''<html>'',
                body_json = Inl (Exc ValueError ''Expecting value'') \<rparr>) (Inr ''Sunny.''))
      ''Zzqxplorp''
       = (Inr None, [HttpGet (ByName ''Zzqxplorp''),
                     Print ''Error connecting to weather API: Expecting value''])
   \<and> fst (handle_user_query Claude
      (scripted_world (Inr ''YES'') (Inr ''Zzqxplorp'') (Inl timeout) (Inr ''Sunny.''))
      ''Weather in Zzqxplorp?'')
       = Inr (''I couldn't find weather information for '' @ [CHR 0x27] @ ''Zzqxplorp'' @ [CHR 0x27]
              @ ''. Please check the spelling or try a different location.'')"
proof -
  let ?loc = "''Zzqxplorp''"
  let ?q = "''Weather in Zzqxplorp?''"
  let ?html = "\<lparr> status_code = 200, body_text = ''<html>'',
                body_json = Inl (Exc ValueError ''Expecting value'') \<rparr>"
  let ?w1 = "scripted_world (Inr ''YES'') (Inr ?loc) (Inr bad_request) (Inr ''Sunny.'')"
  let ?w2 = "scripted_world (Inr ''YES'') (Inr ?loc) (Inr server_error) (Inr ''Sunny.'')"
  let ?w3 = "scripted_world (Inr ''YES'') (Inr ?loc) (Inl timeout) (Inr ''Sunny.'')"
  let ?w4 = "scripted_world (Inr ''YES'') (Inr ?loc) (Inr ?html) (Inr ''Sunny.'')"
  have a: "http_get ?w1 (ByName ?loc) = Inr bad_request \<and> status_code bad_request = 400"
    by (simp add: scripted_world_def bad_request_def)
  have b: "http_get ?w2 (ByName ?loc) = Inr server_error
        \<and> status_code server_error \<noteq> 200 \<and> status_code server_error \<noteq> 400"
    by (simp add: scripted_world_def server_error_def)
  have b': "str_int (status_code server_error) = ''503''"
    by (simp add: server_error_def str_int_def str_nat.simps)
  have c: "http_get ?w3 (ByName ?loc) = Inl timeout \<and> is_Exception timeout"
    by (simp add: scripted_world_def timeout_def)
  have c': "exc_msg timeout = ''Read timed out.''"
    by (simp add: timeout_def)
  have d: "http_get ?w4 (ByName ?loc) = Inr ?html \<and> status_code ?html = 200
        \<and> body_json ?html = Inl (Exc ValueError ''Expecting value'')
        \<and> is_Exception (Exc ValueError ''Expecting value'')"
    by (simp add: scripted_world_def)
  have e1: "fst (is_weather_query Claude ?w3 ?q) = Inr True"
    by (simp add: is_weather_query_def io_defs scripted_world_def strip_def is_space_def)
  have e2: "fst (extract_location_from_query Claude ?w3 ?q) = Inr (Some ?loc) \<and> ?loc \<noteq> []"
    by (simp add: extract_location_from_query_def io_defs scripted_world_def strip_def is_space_def)
  have r1: "get_weather_by_location Claude ?w1 ?loc = (Inr None, [HttpGet (ByName ?loc)])"
    using a fetch_failure_is_absence [where w = ?w1 and loc = ?loc and resp = bad_request and b = Claude]
    by blast
  have r2: "fst (get_weather_by_location Claude ?w2 ?loc) = Inr None
     \<and> Print ''Error: API request failed with status code 503''
         \<in> set (snd (get_weather_by_location Claude ?w2 ?loc))"
    using b b' fetch_failure_is_absence [where w = ?w2 and loc = ?loc and resp = server_error and b = Claude]
    by simp
  have r3: "get_weather_by_location Claude ?w3 ?loc
       = (Inr None, [HttpGet (ByName ?loc), Print ''Error connecting to weather API: Read timed out.''])"
    using c c' fetch_failure_is_absence [where w = ?w3 and loc = ?loc and e = timeout and b = Claude]
    by simp
  have r4: "get_weather_by_location Claude ?w4 ?loc
       = (Inr None, [HttpGet (ByName ?loc), Print ''Error connecting to weather API: Expecting value''])"
    using d fetch_failure_is_absence [where w = ?w4 and loc = ?loc and resp = ?html
        and e = "Exc ValueError ''Expecting value''" and b = Claude]
    by simp
  have r5: "fst (handle_user_query Claude ?w3 ?q) = Inr (not_found_message ?loc)"
    using e1 e2 r3 fetch_failure_is_absence [where w = ?w3 and loc = ?loc and q = ?q and b = Claude]
    by simp
  show ?thesis
    using r1 r2 r3 r4 r5 by (simp add: not_found_message_def)
qed


subsection \<open>The fallback sentence of the composer\<close>

lemma fallback_text:
  assumes "llm w (ComposeRequest q (context_of d)) = Inl e" and "is_Exception e"
  shows "fst (generate_weather_response b w q d) =
     Inr (''The current weather in '' @ name (location d)
          @ '' is a temperature of '' @ py_str w (temp_c (current d))
          @ '' degrees (C), a humidity of '' @ py_str w (humidity (current d)) @ ''%, ''
          @ (if num_gt (cloud (current d)) 50 then ''there are a lot of clouds''
             else ''there are few clouds'')
          @ '' in the sky and a wind of '' @ py_str w (wind_kph (current d)) @ ''km/h.'')"
  using assms
  by (simp add: generate_weather_response_def Let_def io_defs context_of_def)

lemma num_le_not_gt: "num_le c k \<Longrightarrow> \<not> num_gt c k"
  by (cases "(c, k)" rule: num_le.cases) auto

text \<open>
  C6. When the composer's backend call raises, the reply is the templated sentence, and
  its cloud clause follows the strict threshold of the code: with cloud cover greater
  than 50 the sentence ends with \<open>there are a lot of clouds in the sky and a wind of
  ...km/h.\<close>, and with cloud cover less than or equal to 50, exactly 50 included, it
  ends with \<open>there are few clouds in the sky and a wind of ...km/h.\<close>
\<close>

theorem fallback_cloud_threshold:
  assumes "llm w (ComposeRequest q (context_of d)) = Inl e" and "is_Exception e"
  shows "(num_gt (cloud (current d)) 50 \<longrightarrow>
            (\<exists>pre. fst (generate_weather_response b w q d)
               = Inr (pre @ ''there are a lot of clouds in the sky and a wind of ''
                      @ py_str w (wind_kph (current d)) @ ''km/h.'')))
       \<and> (num_le (cloud (current d)) 50 \<longrightarrow>
            (\<exists>pre. fst (generate_weather_response b w q d)
               = Inr (pre @ ''there are few clouds in the sky and a wind of ''
                      @ py_str w (wind_kph (current d)) @ ''km/h.'')))"
proof -
  let ?pre = "''The current weather in '' @ name (location d)
          @ '' is a temperature of '' @ py_str w (temp_c (current d))
          @ '' degrees (C), a humidity of '' @ py_str w (humidity (current d)) @ ''%, ''"
  have many: "fst (generate_weather_response b w q d)
       = Inr (?pre @ ''there are a lot of clouds in the sky and a wind of ''
          @ py_str w (wind_kph (current d)) @ ''km/h.'')"
    if "num_gt (cloud (current d)) 50"
    using fallback_text [OF assms, of b] that by simp
  have few: "fst (generate_weather_response b w q d)
       = Inr (?pre @ ''there are few clouds in the sky and a wind of ''
          @ py_str w (wind_kph (current d)) @ ''km/h.'')"
    if "num_le (cloud (current d)) 50"
    using fallback_text [OF assms, of b] num_le_not_gt [OF that] by simp
  show ?thesis
    using many few by blast
qed

theorem fallback_cloud_threshold_witness:
  "(\<exists>pre. fst (generate_weather_response Claude
        (scripted_world (Inr ''YES'') (Inr ''Paris'') (Inr server_error) (Inl timeout))
        ''Is it cloudy in Paris?''
        (sample_weather \<lparr> current := (current sample_weather) \<lparr> cloud := PyInt 51 \<rparr> \<rparr>))
      = Inr (pre @ ''there are a lot of clouds in the sky and a wind of 15km/h.''))
   \<and> (\<exists>pre. fst (generate_weather_response Claude
        (scripted_world (Inr ''YES'') (Inr ''Paris'') (Inr server_error) (Inl timeout))
        ''Is it cloudy in Paris?''
        (sample_weather \<lparr> current := (current sample_weather) \<lparr> cloud := PyInt 50 \<rparr> \<rparr>))
      = Inr (pre @ ''there are few clouds in the sky and a wind of 15km/h.''))"
proof -
  let ?w = "scripted_world (Inr ''YES'') (Inr ''Paris'') (Inr server_error) (Inl timeout)"
  let ?q = "''Is it cloudy in Paris?''"
  let ?d51 = "sample_weather \<lparr> current := (current sample_weather) \<lparr> cloud := PyInt 51 \<rparr> \<rparr>"
  let ?d50 = "sample_weather \<lparr> current := (current sample_weather) \<lparr> cloud := PyInt 50 \<rparr> \<rparr>"
  have a: "llm ?w (ComposeRequest ?q (context_of ?d51)) = Inl timeout"
    and b: "llm ?w (ComposeRequest ?q (context_of ?d50)) = Inl timeout"
    by (simp_all add: scripted_world_def)
  have e: "is_Exception timeout"
    by (simp add: timeout_def)
  have c: "num_gt (cloud (current ?d51)) 50" and d: "num_le (cloud (current ?d50)) 50"
    by simp_all
  have w: "py_str ?w (wind_kph (current ?d51)) = ''15''"
     "py_str ?w (wind_kph (current ?d50)) = ''15''"
    by (simp_all add: sample_weather_def str_int_def str_nat.simps)
  show ?thesis
    using c d w fallback_cloud_threshold [OF a e, of Claude] fallback_cloud_threshold [OF b e, of Claude]
    by simp
qed

text \<open>
  C7. When the composer's backend call raises and the record has temperature 30,
  humidity 40, cloud cover 80 and wind speed 15 (Python ints), the reply contains the
  substrings \<open>30\<close>, \<open>40%\<close>, \<open>a lot of clouds\<close> and \<open>15km/h\<close>, for every query,
  binding and location name.
\<close>

theorem fallback_scenario_E:
  assumes "llm w (ComposeRequest q (context_of d)) = Inl e" and "is_Exception e"
    and "temp_c (current d) = PyInt 30" and "humidity (current d) = PyInt 40"
    and "cloud (current d) = PyInt 80" and "wind_kph (current d) = PyInt 15"
  shows "\<exists>r. fst (generate_weather_response b w q d) = Inr r
           \<and> sublist ''30'' r \<and> sublist ''40%'' r
           \<and> sublist ''a lot of clouds'' r \<and> sublist ''15km/h'' r"
proof -
  define A where "A = ''The current weather in '' @ name (location d) @ '' is a temperature of ''"
  define r where "r = A @ ''30 degrees (C), a humidity of 40%, there are a lot of clouds in the sky and a wind of 15km/h.''"
  have s: "str_int 30 = ''30''" "str_int 40 = ''40''" "str_int 15 = ''15''"
    by (simp_all add: str_int_def str_nat.simps)
  have res: "fst (generate_weather_response b w q d) = Inr r"
    using fallback_text [OF assms(1,2), of b] assms(3-6) s by (simp add: r_def A_def)
  have "r = A @ ''30'' @ '' degrees (C), a humidity of 40%, there are a lot of clouds in the sky and a wind of 15km/h.''"
    by (simp add: r_def)
  then have 1: "sublist ''30'' r"
    using sublist_appendI [of "''30''" A] by simp
  have "r = (A @ ''30 degrees (C), a humidity of '') @ ''40%'' @ '', there are a lot of clouds in the sky and a wind of 15km/h.''"
    by (simp add: r_def)
  then have 2: "sublist ''40%'' r"
    using sublist_appendI [of "''40%''" "A @ ''30 degrees (C), a humidity of ''"] by simp
  have "r = (A @ ''30 degrees (C), a humidity of 40%, there are '') @ ''a lot of clouds'' @ '' in the sky and a wind of 15km/h.''"
    by (simp add: r_def)
  then have 3: "sublist ''a lot of clouds'' r"
    using sublist_appendI [of "''a lot of clouds''" "A @ ''30 degrees (C), a humidity of 40%, there are ''"] by simp
  have "r = (A @ ''30 degrees (C), a humidity of 40%, there are a lot of clouds in the sky and a wind of '') @ ''15km/h'' @ ''.''"
    by (simp add: r_def)
  then have 4: "sublist ''15km/h'' r"
    using sublist_appendI [of "''15km/h''" "A @ ''30 degrees (C), a humidity of 40%, there are a lot of clouds in the sky and a wind of ''"] by simp
  from res 1 2 3 4 show ?thesis by blast
qed

theorem fallback_scenario_E_witness:
  "\<exists>r. fst (generate_weather_response Groq
          (scripted_world (Inr ''YES'') (Inr ''Paris'') (Inr server_error) (Inl timeout))
          ''How hot is it in Paris?'' sample_weather) = Inr r
       \<and> sublist ''30'' r \<and> sublist ''40%'' r
       \<and> sublist ''a lot of clouds'' r \<and> sublist ''15km/h'' r"
proof -
  let ?w = "scripted_world (Inr ''YES'') (Inr ''Paris'') (Inr server_error) (Inl timeout)"
  have a: "llm ?w (ComposeRequest ''How hot is it in Paris?'' (context_of sample_weather)) = Inl timeout"
    by (simp add: scripted_world_def)
  have e: "is_Exception timeout"
    by (simp add: timeout_def)
  have f: "temp_c (current sample_weather) = PyInt 30" "humidity (current sample_weather) = PyInt 40"
    "cloud (current sample_weather) = PyInt 80" "wind_kph (current sample_weather) = PyInt 15"
    by (simp_all add: sample_weather_def)
  show ?thesis
    by (rule fallback_scenario_E [OF a e f])
qed

subsection \<open>The conversation loop\<close>






end
